theory Spec2Isabelle
  imports Complex_Main "HOL-Library.Word" "HOL-Library.List_Lexorder" "HOL-Library.Char_ord"
begin

section \<open>Values and library types\<close>

text \<open>
  A Go value of type \<open>any\<close>, as far as the library stores or inspects one: the nil
  interface, booleans, strings, \<open>int64\<close> (what \<open>UnixMilli\<close> returns), \<open>float64\<close> (what
  decoding a JSON number gives; a finite one, by the real number it stands for),
  \<open>[]any\<close> and \<open>map[string]any\<close>. A slice and a map are references that may be nil:
  \<open>None\<close> is the nil slice or map. \<open>AOther\<close> stands for a value of any other dynamic
  type (a struct, an \<open>int\<close>, a \<open>map[string]string\<close>, ...), which the library never
  looks into.
\<close>

datatype any =
    ANil
  | ABool bool
  | AString string
  | AInt64 "64 word"
  | AFloat64 real
  | ASlice "any list option"
  | AMap "(string \<Rightarrow> any option) option"
  | AOther string

type_synonym properties = "(string \<Rightarrow> any option) option"

text \<open>A run-time panic of the Go program.\<close>

datatype panic = AssignmentToEntryInNilMap | NilPointerDereference

text \<open>
  \<open>strconv.Itoa\<close>, which is also what the verb \<open>%d\<close> of \<open>fmt.Errorf\<close> prints for an
  \<open>int\<close>: the decimal digits, most significant first, after a minus sign when negative.
\<close>

definition digit :: "nat \<Rightarrow> char" where
  "digit d = ''0123456789'' ! d"

fun digits :: "nat \<Rightarrow> string" where
  "digits n = (if n < 10 then [digit n] else digits (n div 10) @ [digit (n mod 10)])"

declare digits.simps [simp del]

definition Itoa :: "int \<Rightarrow> string" where
  "Itoa i = (if i < 0 then CHR ''-'' # digits (nat (- i)) else digits (nat i))"

text \<open>
  The number a decimal string denotes: what "decimal string form" means, read back.
  It is the yardstick for \<open>Itoa\<close>, not part of the program.
\<close>

definition digitValue :: "char \<Rightarrow> nat" where
  "digitValue c = of_char c - 48"

definition natOfDigits :: "string \<Rightarrow> nat" where
  "natOfDigits s = foldl (\<lambda>a c. 10 * a + digitValue c) 0 s"

definition decimalValue :: "string \<Rightarrow> int" where
  "decimalValue s =
     (case s of CHR ''-'' # r \<Rightarrow> - int (natOfDigits r) | _ \<Rightarrow> int (natOfDigits s))"

text \<open>
  The shape of a decimal numeral: digits only, at least one, no leading zero but in
  "0" itself, and a minus sign in front only of a number that is not zero. Together
  with its value this fixes the string.
\<close>

definition isDigit :: "char \<Rightarrow> bool" where
  "isDigit c = (c \<in> set ''0123456789'')"

definition canonicalDecimal :: "string \<Rightarrow> bool" where
  "canonicalDecimal s =
     (case s of
        CHR ''-'' # r \<Rightarrow> r \<noteq> [] \<and> list_all isDigit r \<and> hd r \<noteq> CHR ''0''
      | _ \<Rightarrow> s \<noteq> [] \<and> list_all isDigit s \<and> (s = ''0'' \<or> hd s \<noteq> CHR ''0''))"

text \<open>
  \<open>time.Time\<close>, seen through the two accessors \<open>UnixMilli\<close> reads: \<open>unixSec()\<close>, a signed
  64-bit count of seconds since the epoch, and \<open>nsec()\<close>, the nanoseconds within that
  second (0 to 999999999). \<open>UnixMilli\<close> is \<open>t.unixSec()*1e3 + int64(t.nsec())/1e6\<close> in
  \<open>int64\<close> arithmetic, which wraps.
\<close>

record Time =
  unixSec :: "64 word"
  nsec :: nat

definition UnixMilli :: "Time \<Rightarrow> 64 word" where
  "UnixMilli t = unixSec t * 1000 + of_nat (nsec t div 1000000)"

text \<open>
  The instant of a \<open>Time\<close> in nanoseconds since the epoch, and that instant cut down to
  whole milliseconds, as unbounded integers: what the time property is measured against.
\<close>

definition epochNanos :: "Time \<Rightarrow> int" where
  "epochNanos t = sint (unixSec t) * 1000000000 + int (nsec t)"

definition epochMillis :: "Time \<Rightarrow> int" where
  "epochMillis t = epochNanos t div 1000000"

text \<open>\<open>net.IP\<close> is a byte slice; \<open>url.Values\<close> maps a key to the list of its values,
  and \<open>Add\<close> appends to that list.\<close>

type_synonym IP = "8 word list"

type_synonym Values = "string \<Rightarrow> string list"

definition emptyValues :: Values where
  "emptyValues = (\<lambda>key. [])"

definition Add :: "string \<Rightarrow> string \<Rightarrow> Values \<Rightarrow> Values" where
  "Add key v vs = vs(key := vs key @ [v])"

section \<open>Result types and errors (ingestion.go)\<close>

text \<open>
  The structs that response bodies are decoded into. Isabelle's record fields share one
  name space, so a field name used by several structs carries a suffix: \<open>_s\<close> for
  ImportSuccess, \<open>_v\<close> for ImportFailedValidationError, \<open>_g\<close> for ImportGenericError,
  \<open>_t\<close> for LookupTable, \<open>_r\<close> for LookupTableResults, \<open>_e\<close> for LookupTableError.
\<close>

record ImportFailedRecords =
  Index :: int
  InsertID :: int
  Field :: string
  Message :: string

record ImportFailedValidationError =
  Code_v :: int
  ApiError_v :: string
  Status_v :: any
  NumRecordsImported_v :: int
  FailedImportRecords :: "ImportFailedRecords list"

record ImportSuccess =
  Code_s :: int
  NumRecordsImported_s :: int
  Status_s :: any

record ImportGenericError =
  Code_g :: int
  ApiError_g :: string
  Status_g :: any

record LookupTableResults =
  ID :: string
  Name_r :: string

record LookupTable =
  Code_t :: int
  Status_t :: string
  Results :: "LookupTableResults list"

record LookupTableError =
  Code_e :: int
  ApiError_e :: string
  Status_e :: any

text \<open>
  Go's \<open>error\<close> values, by dynamic type. \<open>errors.New\<close> and \<open>fmt.Errorf\<close> without
  \<open>%w\<close> give a plain message (\<open>ErrorString\<close>); \<open>fmt.Errorf\<close> with \<open>%w\<close> wraps
  another error behind a message prefix (\<open>WrapError\<close>); \<open>LibError\<close> is an error made by
  a library the code calls (encoding/json, net/http), with its message. The three
  struct types with an \<open>Error\<close> method are returned as errors by value.
\<close>

datatype error =
    ErrorString string
  | LibError string
  | WrapError string error
  | ValidationError ImportFailedValidationError
  | GenericError ImportGenericError
  | TableError LookupTableError

text \<open>The \<open>Error()\<close> method: the message of an error.\<close>

fun Error :: "error \<Rightarrow> string" where
  "Error (ErrorString s) = s"
| "Error (LibError s) = s"
| "Error (WrapError prefix e) = prefix @ Error e"
| "Error (ValidationError e) = ApiError_v e"
| "Error (GenericError e) = ApiError_g e"
| "Error (TableError e) = ApiError_e e"

section \<open>The client and its events (mixpanel.go)\<close>

definition version :: string where "version = ''v0.0.1''"
definition propertyToken :: string where "propertyToken = ''token''"
definition propertyDistinctID :: string where "propertyDistinctID = ''distinct_id''"
definition propertyIP :: string where "propertyIP = ''ip''"
definition propertyInsertID :: string where "propertyInsertID = ''$insert_id''"
definition propertyTime :: string where "propertyTime = ''time''"
definition propertyMpLib :: string where "propertyMpLib = ''mp_lib''"
definition goLib :: string where "goLib = ''go''"
definition propertyLibVersion :: string where "propertyLibVersion = ''$lib_version''"

datatype MpCompression = None_compression | Gzip

record ServiceAccount =
  Username :: string
  Secret :: string

text \<open>
  The client. Its \<open>*http.Client\<close> field is left out: the transport is the
  \<open>doRequest\<close> parameter of the operations below.
\<close>

record Mixpanel =
  apiEndpoint :: string
  dataEndpoint :: string
  projectID :: int
  token :: string
  apiSecret :: string
  serviceAccount :: "ServiceAccount option"
  debugHttp :: bool

text \<open>
  \<open>NewClient\<close>: the defaults, then the options applied in order. An option is a
  function that rewrites the client.
\<close>

definition usEndpoint :: string where "usEndpoint = ''https://api.mixpanel.com''"
definition usDataEndpoint :: string where "usDataEndpoint = ''https://data.mixpanel.com''"

definition NewClient :: "int \<Rightarrow> string \<Rightarrow> string \<Rightarrow> (Mixpanel \<Rightarrow> Mixpanel) list \<Rightarrow> Mixpanel" where
  "NewClient projectID' token' secret opts =
     foldl (\<lambda>mp opt. opt mp)
       \<lparr> apiEndpoint = usEndpoint, dataEndpoint = usDataEndpoint, projectID = projectID',
         token = token', apiSecret = secret, serviceAccount = None, debugHttp = False \<rparr>
       opts"

record Event =
  Name :: string
  Properties :: properties

text \<open>
  \<open>NewEvent\<close> writes into the caller's map (the source leaves a deep copy as a todo), or
  into a fresh one when the caller passed nil. The four assignments are kept in the
  source's order.
\<close>

definition NewEvent :: "Mixpanel \<Rightarrow> string \<Rightarrow> string \<Rightarrow> properties \<Rightarrow> Event" where
  "NewEvent m name distinctID properties =
     (let properties0 = (case properties of None \<Rightarrow> Map.empty | Some p \<Rightarrow> p);
          properties1 = properties0(propertyToken \<mapsto> AString (token m));
          properties2 = properties1(propertyDistinctID \<mapsto> AString distinctID);
          properties3 = properties2(propertyMpLib \<mapsto> AString goLib);
          properties4 = properties3(propertyLibVersion \<mapsto> AString version)
      in \<lparr> Name = name, Properties = Some properties4 \<rparr>)"

text \<open>
  Reading \<open>m[k]\<close> from a \<open>map[string]any\<close>: a missing key and a nil map both give the
  zero value of \<open>any\<close>, the nil interface.
\<close>

definition index :: "properties \<Rightarrow> string \<Rightarrow> any" where
  "index m k =
     (case m of None \<Rightarrow> ANil | Some p \<Rightarrow> (case p k of None \<Rightarrow> ANil | Some v \<Rightarrow> v))"

text \<open>
  The type assertions \<open>.(string)\<close> and \<open>.(map[string]any)\<close> succeed on exactly that
  dynamic type (a map held in the interface may itself be nil); the two errors come from
  \<open>errors.New\<close>.
\<close>

definition NewEventFromJson :: "Mixpanel \<Rightarrow> properties \<Rightarrow> error + Event" where
  "NewEventFromJson m json =
     (case index json ''event'' of
        AString name \<Rightarrow>
          (case index json ''properties'' of
             AMap properties \<Rightarrow> Inr \<lparr> Name = name, Properties = properties \<rparr>
           | _ \<Rightarrow> Inl (ErrorString ''event properties is not a map or is missing''))
      | _ \<Rightarrow> Inl (ErrorString ''event name is not a string or is missing''))"

text \<open>
  The assignment \<open>e.Properties[k] = v\<close>, shared by every helper below: it panics on a
  nil map and otherwise replaces or adds the one entry.
\<close>

definition setProperty :: "string \<Rightarrow> any \<Rightarrow> Event \<Rightarrow> panic + Event" where
  "setProperty k v e =
     (case Properties e of
        None \<Rightarrow> Inl AssignmentToEntryInNilMap
      | Some p \<Rightarrow> Inr (e\<lparr> Properties := Some (p(k \<mapsto> v)) \<rparr>))"

definition AddTime :: "Time \<Rightarrow> Event \<Rightarrow> panic + Event" where
  "AddTime t e = setProperty propertyTime (AInt64 (UnixMilli t)) e"

definition AddInsertID :: "string \<Rightarrow> Event \<Rightarrow> panic + Event" where
  "AddInsertID insertID e = setProperty propertyInsertID (AString insertID) e"

text \<open>
  \<open>AddIP\<close> takes a pointer to a \<open>net.IP\<close> and calls \<open>String\<close> through it, so a nil
  pointer panics before the map is touched. The textual form is net's business and is
  a parameter here.
\<close>

definition AddIP :: "(IP \<Rightarrow> string) \<Rightarrow> IP option \<Rightarrow> Event \<Rightarrow> panic + Event" where
  "AddIP String ip e =
     (case ip of
        None \<Rightarrow> Inl NilPointerDereference
      | Some a \<Rightarrow> setProperty propertyIP (AString (String a)) e)"

text \<open>Running a second step on the result of a first one, unless the first panicked.\<close>

definition andThen :: "panic + 'a \<Rightarrow> ('a \<Rightarrow> panic + 'b) \<Rightarrow> panic + 'b" where
  "andThen r f = (case r of Inl p \<Rightarrow> Inl p | Inr x \<Rightarrow> f x)"

record IdentityEvent =
  event :: Event

definition SetIdentifiedId :: "string \<Rightarrow> IdentityEvent \<Rightarrow> panic + IdentityEvent" where
  "SetIdentifiedId id' i =
     andThen (setProperty ''$identified_id'' (AString id') (event i))
       (\<lambda>e. Inr (i\<lparr> event := e \<rparr>))"

definition SetAnonId :: "string \<Rightarrow> IdentityEvent \<Rightarrow> panic + IdentityEvent" where
  "SetAnonId id' i =
     andThen (setProperty ''$anon_id'' (AString id') (event i))
       (\<lambda>e. Inr (i\<lparr> event := e \<rparr>))"

definition NewIdentityEvent ::
  "Mixpanel \<Rightarrow> string \<Rightarrow> properties \<Rightarrow> string \<Rightarrow> string \<Rightarrow> panic + IdentityEvent" where
  "NewIdentityEvent m distinctID properties identifiedId anonId =
     (let event' = NewEvent m ''$identify'' distinctID properties;
          i = \<lparr> event = event' \<rparr>
      in andThen (SetIdentifiedId identifiedId i) (SetAnonId anonId))"

text \<open>Reading \<open>e.Properties[k]\<close> with presence, and the keys of an event.\<close>

definition property :: "Event \<Rightarrow> string \<Rightarrow> any option" where
  "property e k = (case Properties e of None \<Rightarrow> None | Some p \<Rightarrow> p k)"

definition keys :: "Event \<Rightarrow> string set" where
  "keys e = (case Properties e of None \<Rightarrow> {} | Some p \<Rightarrow> dom p)"

section \<open>Import and ListLookupTables (ingestion.go)\<close>

definition importURL :: string where "importURL = ''/import''"
definition lookupTablesUrl :: string where "lookupTablesUrl = ''/lookup-tables''"

record ImportOptions =
  Strict :: bool
  Compression :: MpCompression

text \<open>
  \<open>doRequest\<close> and the request options \<open>addQueryParams\<close>, \<open>acceptJson\<close>,
  \<open>acceptPlainText\<close> and \<open>useServiceAccount\<close> are not among the source files at hand.
  A call of \<open>doRequest\<close> is therefore recorded as the list of its arguments, with each
  option as a tag that keeps its own argument, and \<open>doRequest\<close> itself is a parameter
  of the operations: a function from that call to a transport error or a response.
\<close>

datatype httpOptions =
    addQueryParams Values
  | acceptJson
  | acceptPlainText
  | useServiceAccount Mixpanel

record Request =
  httpMethod :: string
  url :: string
  payload :: "Event list option"
  compression :: MpCompression
  options :: "httpOptions list"

record Response =
  StatusCode :: int
  Body :: string

text \<open>
  \<open>json.NewDecoder(body).Decode(&x)\<close> belongs to encoding/json. Each use is a parameter:
  one decoder per target struct, from the bytes of the body to the struct or to the
  library's error.
\<close>

record Decoders =
  DecodeImportSuccess :: "string \<Rightarrow> error + ImportSuccess"
  DecodeImportFailedValidationError :: "string \<Rightarrow> error + ImportFailedValidationError"
  DecodeImportGenericError :: "string \<Rightarrow> error + ImportGenericError"
  DecodeLookupTable :: "string \<Rightarrow> error + LookupTable"
  DecodeLookupTableError :: "string \<Rightarrow> error + LookupTableError"

text \<open>Lines 113 to 120 of Import: the query values.\<close>

definition ImportValues :: "Mixpanel \<Rightarrow> ImportOptions \<Rightarrow> Values" where
  "ImportValues m opts =
     (let values0 = emptyValues;
          values1 = (if Strict opts then Add ''strict'' ''1'' values0
                     else Add ''strict'' ''0'' values0);
          values2 = Add ''project_id'' (Itoa (projectID m)) values1;
          values3 = Add ''verbose'' ''1'' values2
      in values3)"

text \<open>Lines 122 to 129: the call of \<open>doRequest\<close>.\<close>

definition ImportRequest :: "Mixpanel \<Rightarrow> Event list \<Rightarrow> ImportOptions \<Rightarrow> Request" where
  "ImportRequest m events opts =
     \<lparr> httpMethod = ''POST'',
       url = apiEndpoint m @ importURL,
       payload = Some events,
       compression = Compression opts,
       options = [addQueryParams (ImportValues m opts), acceptJson, useServiceAccount m] \<rparr>"

text \<open>Lines 135 to 156: the switch on the status code.\<close>

definition ImportResponse :: "Decoders \<Rightarrow> Response \<Rightarrow> error + ImportSuccess" where
  "ImportResponse dec httpResponse =
     (if StatusCode httpResponse = 200 then
        (case DecodeImportSuccess dec (Body httpResponse) of
           Inl err \<Rightarrow> Inl (WrapError ''failed to parse response body:'' err)
         | Inr s \<Rightarrow> Inr s)
      else if StatusCode httpResponse = 400 then
        (case DecodeImportFailedValidationError dec (Body httpResponse) of
           Inl err \<Rightarrow> Inl (WrapError ''failed to json decode response body: '' err)
         | Inr g \<Rightarrow> Inl (ValidationError g))
      else if StatusCode httpResponse = 401 \<or> StatusCode httpResponse = 413
              \<or> StatusCode httpResponse = 429 then
        (case DecodeImportGenericError dec (Body httpResponse) of
           Inl err \<Rightarrow> Inl (WrapError ''failed to json decode response body: '' err)
         | Inr g \<Rightarrow> Inl (GenericError g))
      else Inl (ErrorString (''unexpected status code: '' @ Itoa (StatusCode httpResponse))))"

definition Import ::
  "(Request \<Rightarrow> error + Response) \<Rightarrow> Decoders \<Rightarrow> Mixpanel \<Rightarrow> Event list \<Rightarrow> ImportOptions
     \<Rightarrow> error + ImportSuccess" where
  "Import doRequest dec m events opts =
     (case doRequest (ImportRequest m events opts) of
        Inl err \<Rightarrow> Inl (WrapError ''failed to import:'' err)
      | Inr httpResponse \<Rightarrow> ImportResponse dec httpResponse)"

text \<open>ListLookupTables: the query, the call, and the switch on the status code. A
  transport error is formatted with \<open>%v\<close> there, so only its message survives.\<close>

definition ListLookupTablesRequest :: "Mixpanel \<Rightarrow> Request" where
  "ListLookupTablesRequest m =
     \<lparr> httpMethod = ''GET'',
       url = apiEndpoint m @ lookupTablesUrl,
       payload = None,
       compression = None_compression,
       options = [addQueryParams (Add ''project_id'' (Itoa (projectID m)) emptyValues),
                  acceptJson] \<rparr>"

definition ListLookupTablesResponse :: "Decoders \<Rightarrow> Response \<Rightarrow> error + LookupTable" where
  "ListLookupTablesResponse dec httpResponse =
     (if StatusCode httpResponse = 200 then
        (case DecodeLookupTable dec (Body httpResponse) of
           Inl err \<Rightarrow> Inl (WrapError ''failed to decode results: '' err)
         | Inr result \<Rightarrow> Inr result)
      else if StatusCode httpResponse = 401 then
        (case DecodeLookupTableError dec (Body httpResponse) of
           Inl err \<Rightarrow> Inl (WrapError ''failed to decode error response:'' err)
         | Inr e \<Rightarrow> Inl (TableError e))
      else Inl (ErrorString (''unexpected status code: '' @ Itoa (StatusCode httpResponse))))"

definition ListLookupTables ::
  "(Request \<Rightarrow> error + Response) \<Rightarrow> Decoders \<Rightarrow> Mixpanel \<Rightarrow> error + LookupTable" where
  "ListLookupTables doRequest dec m =
     (case doRequest (ListLookupTablesRequest m) of
        Inl err \<Rightarrow> Inl (ErrorString (''failed to call list lookup tables: '' @ Error err))
      | Inr httpResponse \<Rightarrow> ListLookupTablesResponse dec httpResponse)"

section \<open>The JSON round trip of an event (encoding/json)\<close>

text \<open>
  A string after a JSON encode and decode. The encoder walks the bytes with
  \<open>utf8.DecodeRuneInString\<close> and writes the replacement character U+FFFD (bytes EF BF BD)
  for every byte that does not start a well-formed UTF-8 sequence; everything else comes
  back as it was. \<open>runeSize\<close> is the size \<open>DecodeRuneInString\<close> reports, with 0 for its
  error of size 1; the accepted ranges are those of Go's \<open>first\<close> and \<open>acceptRanges\<close>
  tables.
\<close>

definition between :: "nat \<Rightarrow> char \<Rightarrow> nat \<Rightarrow> bool" where
  "between lo c hi = (lo \<le> of_char c \<and> of_char c \<le> hi)"

fun runeSize :: "string \<Rightarrow> nat" where
  "runeSize [] = 0"
| "runeSize (s0 # rest) =
     (if between 0x00 s0 0x7F then 1
      else if between 0xC2 s0 0xDF then
        (case rest of s1 # _ \<Rightarrow> if between 0x80 s1 0xBF then 2 else 0 | _ \<Rightarrow> 0)
      else if between 0xE0 s0 0xEF then
        (case rest of
           s1 # s2 # _ \<Rightarrow>
             if between (if s0 = CHR 0xE0 then 0xA0 else 0x80) s1
                        (if s0 = CHR 0xED then 0x9F else 0xBF)
                \<and> between 0x80 s2 0xBF
             then 3 else 0
         | _ \<Rightarrow> 0)
      else if between 0xF0 s0 0xF4 then
        (case rest of
           s1 # s2 # s3 # _ \<Rightarrow>
             if between (if s0 = CHR 0xF0 then 0x90 else 0x80) s1
                        (if s0 = CHR 0xF4 then 0x8F else 0xBF)
                \<and> between 0x80 s2 0xBF \<and> between 0x80 s3 0xBF
             then 4 else 0
         | _ \<Rightarrow> 0)
      else 0)"

function toValidUTF8 :: "string \<Rightarrow> string" where
  "toValidUTF8 s =
     (if s = [] then []
      else if runeSize s = 0 then [CHR 0xEF, CHR 0xBF, CHR 0xBD] @ toValidUTF8 (tl s)
      else take (runeSize s) s @ toValidUTF8 (drop (runeSize s) s))"
  by pat_completeness auto
termination
  by (relation "measure length") (auto simp add: neq_Nil_conv)

declare toValidUTF8.simps [simp del]

text \<open>
  An \<open>int64\<close> is written as a decimal integer and read back, into an \<open>any\<close>, as the
  nearest \<open>float64\<close>, ties to the even mantissa: exact below 2^53 in magnitude, rounded
  to 53 significant bits above. The result is a whole number.
\<close>

fun bitLength :: "nat \<Rightarrow> nat" where
  "bitLength n = (if n = 0 then 0 else Suc (bitLength (n div 2)))"

declare bitLength.simps [simp del]

definition float64OfInt :: "int \<Rightarrow> int" where
  "float64OfInt i =
     (if \<bar>i\<bar> < 2 ^ 53 then i
      else
        (let a = nat \<bar>i\<bar>;
             e = bitLength a - 53;
             q = a div 2 ^ e;
             r = a mod 2 ^ e;
             up = (2 ^ e < 2 * r \<or> (2 * r = 2 ^ e \<and> odd q))
         in sgn i * int ((if up then q + 1 else q) * 2 ^ e)))"

text \<open>
  \<open>jsonValue n v v'\<close>: the value \<open>v\<close>, written by \<open>json.Marshal\<close> and read back into an
  \<open>any\<close>, is \<open>v'\<close>, where \<open>v\<close> nests slices and maps at most \<open>n\<close> deep (the decoder
  refuses more than 10000 levels in all). A nil slice and a nil map are written as
  \<open>null\<close> and come back as the nil interface. A map is written with its keys in
  byte order, each key as a string is, so that of several keys that come back the same
  the greatest decides the entry; it is written only if every one of its values is. The
  relation has no rule for \<open>AOther\<close>: it says nothing about values of other types.
\<close>

inductive jsonValue :: "nat \<Rightarrow> any \<Rightarrow> any \<Rightarrow> bool" where
  Nil: "jsonValue n ANil ANil"
| Bool: "jsonValue n (ABool b) (ABool b)"
| String: "jsonValue n (AString s) (AString (toValidUTF8 s))"
| Int64: "jsonValue n (AInt64 w) (AFloat64 (of_int (float64OfInt (sint w))))"
| Float64: "jsonValue n (AFloat64 r) (AFloat64 r)"
| NilSlice: "jsonValue n (ASlice None) ANil"
| Slice: "list_all2 (jsonValue n) xs ys \<Longrightarrow>
          jsonValue (Suc n) (ASlice (Some xs)) (ASlice (Some ys))"
| NilMap: "jsonValue n (AMap None) ANil"
| Map: "(\<forall>k v. p k = Some v \<longrightarrow> (\<exists>v'. jsonValue n v v')) \<Longrightarrow>
        (\<forall>k'. q k' = None \<longrightarrow> (\<forall>k. p k \<noteq> None \<longrightarrow> toValidUTF8 k \<noteq> k')) \<Longrightarrow>
        (\<forall>k' v'. q k' = Some v' \<longrightarrow>
           (\<exists>k v. p k = Some v \<and> toValidUTF8 k = k' \<and>
                  (\<forall>k2. p k2 \<noteq> None \<and> toValidUTF8 k2 = k' \<longrightarrow> k2 \<le> k) \<and>
                  jsonValue n v v')) \<Longrightarrow>
        jsonValue (Suc n) (AMap (Some p)) (AMap (Some q))"

text \<open>
  \<open>jsonOfEvent e j\<close>: \<open>j\<close> is the untyped map that serializing the event \<open>e\<close> and
  decoding the bytes into a \<open>map[string]any\<close> gives. The struct tags of \<open>Event\<close> fix the
  two keys. The object of the event is the first level of nesting and the properties
  map the second, which leaves 9998 levels to each property value.
\<close>

definition jsonOfEvent :: "Event \<Rightarrow> properties \<Rightarrow> bool" where
  "jsonOfEvent e j =
     (\<exists>pv. jsonValue 9999 (AMap (Properties e)) pv \<and>
           j = Some [''event'' \<mapsto> AString (toValidUTF8 (Name e)), ''properties'' \<mapsto> pv])"

section \<open>The vocabulary of the specification\<close>

text \<open>
  The specification names kinds of errors that the code tells apart by dynamic type and
  message only. \<open>ApiError\<close>: the server's own report, one of the three struct types.
  \<open>DecodeError\<close>: a decode failure, wrapped behind one of the four prefixes the two
  operations use. \<open>MalformedEvent\<close>: either error of \<open>NewEventFromJson\<close>.
\<close>

definition ApiError :: "error \<Rightarrow> bool" where
  "ApiError err =
     (case err of ValidationError v \<Rightarrow> True | GenericError g \<Rightarrow> True | TableError e \<Rightarrow> True
      | _ \<Rightarrow> False)"

definition DecodeError :: "error \<Rightarrow> bool" where
  "DecodeError err =
     (case err of
        WrapError prefix cause \<Rightarrow>
          prefix = ''failed to parse response body:'' \<or>
          prefix = ''failed to json decode response body: '' \<or>
          prefix = ''failed to decode results: '' \<or>
          prefix = ''failed to decode error response:''
      | _ \<Rightarrow> False)"

definition MalformedEvent :: "error \<Rightarrow> bool" where
  "MalformedEvent err =
     (err = ErrorString ''event name is not a string or is missing'' \<or>
      err = ErrorString ''event properties is not a map or is missing'')"

definition isString :: "any \<Rightarrow> bool" where
  "isString v = (case v of AString s \<Rightarrow> True | _ \<Rightarrow> False)"

definition isMap :: "any \<Rightarrow> bool" where
  "isMap v = (case v of AMap p \<Rightarrow> True | _ \<Rightarrow> False)"

text \<open>
  A stand-in for encoding/json on two bodies, for running the operations on concrete
  responses: \<open>{}\<close> decodes to the zero value of every struct, as it does in Go, and
  any other body is refused as a body that is not JSON would be.
\<close>

definition emptyObjectDecoders :: Decoders where
  "emptyObjectDecoders =
     \<lparr> DecodeImportSuccess = (\<lambda>body.
         if body = ''{}'' then Inr \<lparr> Code_s = 0, NumRecordsImported_s = 0, Status_s = ANil \<rparr>
         else Inl (LibError ''invalid character'')),
       DecodeImportFailedValidationError = (\<lambda>body.
         if body = ''{}''
         then Inr \<lparr> Code_v = 0, ApiError_v = [], Status_v = ANil, NumRecordsImported_v = 0,
                    FailedImportRecords = [] \<rparr>
         else Inl (LibError ''invalid character'')),
       DecodeImportGenericError = (\<lambda>body.
         if body = ''{}'' then Inr \<lparr> Code_g = 0, ApiError_g = [], Status_g = ANil \<rparr>
         else Inl (LibError ''invalid character'')),
       DecodeLookupTable = (\<lambda>body.
         if body = ''{}'' then Inr \<lparr> Code_t = 0, Status_t = [], Results = [] \<rparr>
         else Inl (LibError ''invalid character'')),
       DecodeLookupTableError = (\<lambda>body.
         if body = ''{}'' then Inr \<lparr> Code_e = 0, ApiError_e = [], Status_e = ANil \<rparr>
         else Inl (LibError ''invalid character'')) \<rparr>"

section \<open>Helper facts\<close>

lemmas property_names =
  propertyToken_def propertyDistinctID_def propertyIP_def propertyInsertID_def
  propertyTime_def propertyMpLib_def propertyLibVersion_def

subsection \<open>Decimal strings\<close>

lemma digit_cases: "d < 10 \<Longrightarrow> d \<in> {0, 1, 2, 3, 4, 5, 6, 7, 8, 9::nat}"
  by auto

lemma digitValue_digit: "d < 10 \<Longrightarrow> digitValue (digit d) = d"
  using digit_cases [of d] by (auto simp add: digitValue_def digit_def)

lemma digit_not_minus: "d < 10 \<Longrightarrow> digit d \<noteq> CHR ''-''"
  using digit_cases [of d] by (auto simp add: digit_def)

lemma natOfDigits_digits: "natOfDigits (digits n) = n"
proof (induction n rule: digits.induct)
  case (1 n)
  show ?case
  proof (cases "n < 10")
    case True
    then show ?thesis
      by (subst digits.simps) (simp add: natOfDigits_def digitValue_digit)
  next
    case False
    have "natOfDigits (digits n) =
            10 * natOfDigits (digits (n div 10)) + digitValue (digit (n mod 10))"
      using False by (subst digits.simps) (simp add: natOfDigits_def)
    also have "\<dots> = 10 * (n div 10) + n mod 10"
      using 1 False by (simp add: digitValue_digit)
    finally show ?thesis by simp
  qed
qed

lemma digits_not_minus: "\<exists>c r. digits n = c # r \<and> c \<noteq> CHR ''-''"
proof (induction n rule: digits.induct)
  case (1 n)
  show ?case
  proof (cases "n < 10")
    case True
    then show ?thesis by (subst digits.simps) (simp add: digit_not_minus)
  next
    case False
    with 1 obtain c r where "digits (n div 10) = c # r" "c \<noteq> CHR ''-''" by blast
    with False show ?thesis by (subst digits.simps) simp
  qed
qed

lemma decimalValue_Itoa: "decimalValue (Itoa i) = i"
proof (cases "i < 0")
  case True
  then show ?thesis by (simp add: Itoa_def decimalValue_def natOfDigits_digits)
next
  case False
  obtain c r where cr: "digits (nat i) = c # r" "c \<noteq> CHR ''-''"
    using digits_not_minus by blast
  have "decimalValue (digits (nat i)) = int (natOfDigits (digits (nat i)))"
    unfolding decimalValue_def cr(1) using cr(2) by (simp split: char.splits bool.splits)
  with False show ?thesis by (simp add: Itoa_def natOfDigits_digits)
qed

lemma Itoa_inject: "Itoa i = Itoa j \<Longrightarrow> i = j"
  by (metis decimalValue_Itoa)

lemma isDigit_digit: "d < 10 \<Longrightarrow> isDigit (digit d)"
  using digit_cases [of d] by (auto simp add: isDigit_def digit_def)

lemma digit_zero_iff: "d < 10 \<Longrightarrow> digit d = CHR ''0'' \<longleftrightarrow> d = 0"
  using digit_cases [of d] by (auto simp add: digit_def)

lemma digits_nonempty: "digits n \<noteq> []"
  by (subst digits.simps) simp

lemma digits_all_digits: "list_all isDigit (digits n)"
proof (induction n rule: digits.induct)
  case (1 n)
  show ?case
  proof (cases "n < 10")
    case True
    then show ?thesis by (subst digits.simps) (simp add: isDigit_digit)
  next
    case False
    with 1 show ?thesis by (subst digits.simps) (simp add: isDigit_digit)
  qed
qed

lemma hd_digits_zero: "hd (digits n) = CHR ''0'' \<Longrightarrow> n = 0"
proof (induction n rule: digits.induct)
  case (1 n)
  show ?case
  proof (cases "n < 10")
    case True
    with 1(2) show ?thesis by (subst (asm) digits.simps) (simp add: digit_zero_iff)
  next
    case False
    with 1(2) have "hd (digits (n div 10)) = CHR ''0''"
      by (subst (asm) digits.simps) (simp add: digits_nonempty)
    with 1(1) False have "n div 10 = 0" by simp
    with False show ?thesis by simp
  qed
qed

lemma digits_0: "digits 0 = ''0''"
  by (subst digits.simps) (simp add: digit_def)

lemma canonicalDecimal_Itoa: "canonicalDecimal (Itoa i)"
proof (cases "i < 0")
  case True
  then have "hd (digits (nat (- i))) \<noteq> CHR ''0''"
    using hd_digits_zero [of "nat (- i)"] by auto
  with True show ?thesis
    by (simp add: Itoa_def canonicalDecimal_def digits_nonempty digits_all_digits)
next
  case False
  obtain c r where cr: "digits (nat i) = c # r" "c \<noteq> CHR ''-''"
    using digits_not_minus by blast
  have z: "digits (nat i) = ''0'' \<or> hd (digits (nat i)) \<noteq> CHR ''0''"
    using hd_digits_zero [of "nat i"] digits_0 by auto
  have "canonicalDecimal (digits (nat i))"
    using z digits_all_digits [of "nat i"] cr
    unfolding canonicalDecimal_def by (auto split: list.splits char.splits bool.splits)
  with False show ?thesis by (simp add: Itoa_def)
qed

subsection \<open>Query values\<close>

lemma Add_apply: "Add key v vs k = (if k = key then vs key @ [v] else vs k)"
  by (simp add: Add_def)

subsection \<open>Milliseconds\<close>

lemma UnixMilli_of_int:
  "UnixMilli t = word_of_int (sint (unixSec t) * 1000 + int (nsec t div 1000000))"
  by (simp add: UnixMilli_def)

lemma epochMillis_eq: "epochMillis t = sint (unixSec t) * 1000 + int (nsec t div 1000000)"
proof -
  have "epochNanos t = int (nsec t) + (sint (unixSec t) * 1000) * 1000000"
    by (simp add: epochNanos_def)
  then have "epochMillis t = int (nsec t) div 1000000 + sint (unixSec t) * 1000"
    unfolding epochMillis_def by (simp only: div_mult_self2)
  then show ?thesis by (simp add: zdiv_int)
qed

lemma sint_UnixMilli:
  assumes "- (2 ^ 63) \<le> epochMillis t" and "epochMillis t < 2 ^ 63"
  shows "sint (UnixMilli t) = epochMillis t"
proof -
  have "sint (UnixMilli t) = signed_take_bit 63 (epochMillis t)"
    by (simp add: UnixMilli_of_int epochMillis_eq sint_sbintrunc' del: of_int_add of_int_mult)
  also have "\<dots> = epochMillis t"
    using assms by (intro signed_take_bit_int_eq_self) simp_all
  finally show ?thesis .
qed

lemma UnixMilli_wraps: "UnixMilli \<lparr> unixSec = 2 ^ 62, nsec = 0 \<rparr> = 0"
proof -
  have "(4611686018427387904000 :: 64 word) = word_of_int 4611686018427387904000" by simp
  also have "\<dots> = 0" by (simp only: word_of_int_eq_0_iff) simp
  finally show ?thesis by (simp add: UnixMilli_def)
qed

subsection \<open>Assignment to a property\<close>

lemma setProperty_Some:
  "Properties e = Some p \<Longrightarrow> setProperty k v e = Inr (e\<lparr> Properties := Some (p(k \<mapsto> v)) \<rparr>)"
  by (simp add: setProperty_def)

lemma setProperty_twice:
  "setProperty k v1 e = Inr e1 \<Longrightarrow> setProperty k v2 e1 = setProperty k v2 e"
  by (auto simp add: setProperty_def split: option.splits)

lemma setProperty_frame:
  "setProperty k v e = Inr e' \<Longrightarrow>
     Name e' = Name e \<and> property e' k = Some v \<and> keys e' = insert k (keys e) \<and>
     (\<forall>k'. k' \<noteq> k \<longrightarrow> property e' k' = property e k')"
  by (auto simp add: setProperty_def property_def keys_def split: option.splits)

lemma NewIdentityEvent_eq:
  "NewIdentityEvent m distinctID properties identifiedId anonId =
     Inr \<lparr> event = \<lparr> Name = ''$identify'',
        Properties = Some ((case properties of None \<Rightarrow> Map.empty | Some p \<Rightarrow> p)
          (propertyToken \<mapsto> AString (token m), propertyDistinctID \<mapsto> AString distinctID,
           propertyMpLib \<mapsto> AString goLib, propertyLibVersion \<mapsto> AString version,
           ''$identified_id'' \<mapsto> AString identifiedId, ''$anon_id'' \<mapsto> AString anonId)) \<rparr> \<rparr>"
  by (simp add: NewIdentityEvent_def NewEvent_def SetIdentifiedId_def SetAnonId_def
        setProperty_def andThen_def Let_def)

subsection \<open>The JSON round trip\<close>

lemma jsonValue_functional: "jsonValue n v a \<Longrightarrow> jsonValue n v b \<Longrightarrow> a = b"
proof (induction n v a arbitrary: b rule: jsonValue.induct)
  case (Slice n xs ys)
  from Slice.prems obtain zs where b: "b = ASlice (Some zs)" and z: "list_all2 (jsonValue n) xs zs"
    by (auto elim: jsonValue.cases)
  from Slice.IH z have "ys = zs"
  proof (induction xs ys arbitrary: zs rule: list_all2_induct)
    case Nil
    then show ?case by simp
  next
    case (Cons x xs y ys)
    then show ?case by (auto simp add: list_all2_Cons1)
  qed
  with b show ?case by simp
next
  case (Map p n q)
  from Map.prems obtain q' where b: "b = AMap (Some q')"
    and none': "\<forall>k'. q' k' = None \<longrightarrow> (\<forall>k. p k \<noteq> None \<longrightarrow> toValidUTF8 k \<noteq> k')"
    and some': "\<forall>k' v'. q' k' = Some v' \<longrightarrow>
           (\<exists>k v. p k = Some v \<and> toValidUTF8 k = k' \<and>
                  (\<forall>k2. p k2 \<noteq> None \<and> toValidUTF8 k2 = k' \<longrightarrow> k2 \<le> k) \<and>
                  jsonValue n v v')"
    by (auto elim: jsonValue.cases)
  have "q k' = q' k'" for k'
  proof (cases "q k'")
    case None
    show ?thesis
    proof (cases "q' k'")
      case None
      with \<open>q k' = None\<close> show ?thesis by simp
    next
      case (Some v')
      with some' obtain k v where "p k = Some v" "toValidUTF8 k = k'" by blast
      with Map.hyps \<open>q k' = None\<close> show ?thesis by auto
    qed
  next
    case (Some v1)
    with Map.IH(2) obtain k1 u1 where k1: "p k1 = Some u1" "toValidUTF8 k1 = k'"
      "\<forall>k2. p k2 \<noteq> None \<and> toValidUTF8 k2 = k' \<longrightarrow> k2 \<le> k1"
      and ih: "\<forall>b. jsonValue n u1 b \<longrightarrow> v1 = b"
      by blast
    show ?thesis
    proof (cases "q' k'")
      case None
      with none' k1 show ?thesis by auto
    next
      case (Some v2)
      with some' obtain k2 u2 where k2: "p k2 = Some u2" "toValidUTF8 k2 = k'"
        "\<forall>k3. p k3 \<noteq> None \<and> toValidUTF8 k3 = k' \<longrightarrow> k3 \<le> k2"
        and j2: "jsonValue n u2 v2"
        by blast
      from k1 k2 have "k1 \<le> k2" "k2 \<le> k1" by auto
      then have "k1 = k2" by simp
      with k1 k2 j2 ih have "v1 = v2" by auto
      with Some \<open>q k' = Some v1\<close> show ?thesis by simp
    qed
  qed
  then have "q = q'" by (rule ext)
  with b show ?case by simp
qed (auto elim: jsonValue.cases)

lemma jsonValue_stable_map:
  assumes keys: "\<forall>k v. p k = Some v \<longrightarrow> toValidUTF8 k = k"
    and vals: "\<forall>k v. p k = Some v \<longrightarrow> jsonValue n v v"
  shows "jsonValue (Suc n) (AMap (Some p)) (AMap (Some p))"
proof (rule jsonValue.Map)
  show "\<forall>k v. p k = Some v \<longrightarrow> (\<exists>v'. jsonValue n v v')"
    using vals by blast
  show "\<forall>k'. p k' = None \<longrightarrow> (\<forall>k. p k \<noteq> None \<longrightarrow> toValidUTF8 k \<noteq> k')"
    using keys by auto
  show "\<forall>k' v'. p k' = Some v' \<longrightarrow>
          (\<exists>k v. p k = Some v \<and> toValidUTF8 k = k' \<and>
                 (\<forall>k2. p k2 \<noteq> None \<and> toValidUTF8 k2 = k' \<longrightarrow> k2 \<le> k) \<and> jsonValue n v v')"
  proof (intro allI impI)
    fix k' v' assume h: "p k' = Some v'"
    have "\<forall>k2. p k2 \<noteq> None \<and> toValidUTF8 k2 = k' \<longrightarrow> k2 \<le> k'"
      using keys by auto
    with h keys vals
    show "\<exists>k v. p k = Some v \<and> toValidUTF8 k = k' \<and>
                (\<forall>k2. p k2 \<noteq> None \<and> toValidUTF8 k2 = k' \<longrightarrow> k2 \<le> k) \<and> jsonValue n v v'"
      by blast
  qed
qed

lemma toValidUTF8_ascii: "list_all (\<lambda>c. (of_char c :: nat) < 128) s \<Longrightarrow> toValidUTF8 s = s"
proof (induction s)
  case Nil
  then show ?case by (subst toValidUTF8.simps) simp
next
  case (Cons c s)
  then have "runeSize (c # s) = 1" by (simp add: between_def)
  with Cons show ?case by (subst toValidUTF8.simps) simp
qed

lemma toValidUTF8_FF: "toValidUTF8 [CHR 0xFF] = [CHR 0xEF, CHR 0xBF, CHR 0xBD]"
  by (simp add: toValidUTF8.simps between_def)

lemma jsonValue_empty_map:
  "0 < n \<Longrightarrow> jsonValue n (AMap (Some Map.empty)) (AMap (Some Map.empty))"
  using jsonValue.Map [of Map.empty "n - 1" Map.empty] by simp

lemma jsonValue_singleton_map:
  assumes "0 < n" and v: "jsonValue (n - 1) v v'"
  shows "jsonValue n (AMap (Some [k \<mapsto> v])) (AMap (Some [toValidUTF8 k \<mapsto> v']))"
proof -
  have "jsonValue (Suc (n - 1)) (AMap (Some [k \<mapsto> v])) (AMap (Some [toValidUTF8 k \<mapsto> v']))"
  proof (rule jsonValue.Map)
    show "\<forall>ka va. [k \<mapsto> v] ka = Some va \<longrightarrow> (\<exists>v'. jsonValue (n - 1) va v')"
      using v by (auto split: if_splits)
    show "\<forall>k'. [toValidUTF8 k \<mapsto> v'] k' = None \<longrightarrow>
            (\<forall>ka. [k \<mapsto> v] ka \<noteq> None \<longrightarrow> toValidUTF8 ka \<noteq> k')"
      by (auto split: if_splits)
    show "\<forall>k' va'. [toValidUTF8 k \<mapsto> v'] k' = Some va' \<longrightarrow>
            (\<exists>ka va. [k \<mapsto> v] ka = Some va \<and> toValidUTF8 ka = k' \<and>
                (\<forall>k2. [k \<mapsto> v] k2 \<noteq> None \<and> toValidUTF8 k2 = k' \<longrightarrow> k2 \<le> ka) \<and>
                jsonValue (n - 1) va va')"
      using v by (auto split: if_splits)
  qed
  with \<open>0 < n\<close> show ?thesis by simp
qed

lemma jsonOfEventI:
  "jsonValue 9999 (AMap (Properties e)) pv \<Longrightarrow>
   jsonOfEvent e (Some [''event'' \<mapsto> AString (toValidUTF8 (Name e)), ''properties'' \<mapsto> pv])"
  unfolding jsonOfEvent_def by blast

section \<open>Response classification\<close>

text \<open>
  C1 (as amended). When the transport delivers a response, Import classifies it by
  status code. Status 200 with a body that decodes gives the decoded ImportSuccess.
  Status 400 with a body that decodes gives an ImportFailedValidationError holding just
  what was decoded from the body, the per-record diagnostics among it. Statuses 401, 413
  and 429 with a body that decodes all give the same type, ImportGenericError, with the
  code, message and status decoded from the body: the error does not record which of
  the three statuses it came from. Every other status gives the plain error
  "unexpected status code: " followed by the status in decimal, from which the status
  can be read back.
\<close>

theorem Import_classification:
  assumes "doRequest (ImportRequest m events opts) = Inr r"
  shows
  "(StatusCode r = 200 \<and> DecodeImportSuccess dec (Body r) = Inr s \<longrightarrow>
      Import doRequest dec m events opts = Inr s) \<and>
   (StatusCode r = 400 \<and> DecodeImportFailedValidationError dec (Body r) = Inr v \<longrightarrow>
      Import doRequest dec m events opts = Inl (ValidationError v)) \<and>
   ((StatusCode r = 401 \<or> StatusCode r = 413 \<or> StatusCode r = 429) \<and>
      DecodeImportGenericError dec (Body r) = Inr g \<longrightarrow>
      Import doRequest dec m events opts = Inl (GenericError g)) \<and>
   (StatusCode r \<noteq> 200 \<and> StatusCode r \<noteq> 400 \<and> StatusCode r \<noteq> 401 \<and> StatusCode r \<noteq> 413 \<and>
      StatusCode r \<noteq> 429 \<longrightarrow>
      Import doRequest dec m events opts =
        Inl (ErrorString (''unexpected status code: '' @ Itoa (StatusCode r))) \<and>
      decimalValue (Itoa (StatusCode r)) = StatusCode r)"
  using assms by (simp add: Import_def ImportResponse_def decimalValue_Itoa)

theorem Import_classification_witness:
  "Import (\<lambda>req. Inr \<lparr> StatusCode = 200, Body = ''{}'' \<rparr>) emptyObjectDecoders
      (NewClient 42 ''tok'' ''secret'' []) [] \<lparr> Strict = True, Compression = Gzip \<rparr>
     = Inr \<lparr> Code_s = 0, NumRecordsImported_s = 0, Status_s = ANil \<rparr> \<and>
   Import (\<lambda>req. Inr \<lparr> StatusCode = 400, Body = ''{}'' \<rparr>) emptyObjectDecoders
      (NewClient 42 ''tok'' ''secret'' []) [] \<lparr> Strict = True, Compression = Gzip \<rparr>
     = Inl (ValidationError \<lparr> Code_v = 0, ApiError_v = [], Status_v = ANil,
              NumRecordsImported_v = 0, FailedImportRecords = [] \<rparr>) \<and>
   Import (\<lambda>req. Inr \<lparr> StatusCode = 413, Body = ''{}'' \<rparr>) emptyObjectDecoders
      (NewClient 42 ''tok'' ''secret'' []) [] \<lparr> Strict = True, Compression = Gzip \<rparr>
     = Inl (GenericError \<lparr> Code_g = 0, ApiError_g = [], Status_g = ANil \<rparr>) \<and>
   Import (\<lambda>req. Inr \<lparr> StatusCode = 503, Body = ''{}'' \<rparr>) emptyObjectDecoders
      (NewClient 42 ''tok'' ''secret'' []) [] \<lparr> Strict = True, Compression = Gzip \<rparr>
     = Inl (ErrorString ''unexpected status code: 503'')"
  using
    Import_classification [where doRequest = "\<lambda>req. Inr \<lparr> StatusCode = 200, Body = ''{}'' \<rparr>"
      and r = "\<lparr> StatusCode = 200, Body = ''{}'' \<rparr>" and dec = emptyObjectDecoders
      and m = "NewClient 42 ''tok'' ''secret'' []" and events = "[]"
      and opts = "\<lparr> Strict = True, Compression = Gzip \<rparr>"
      and s = "\<lparr> Code_s = 0, NumRecordsImported_s = 0, Status_s = ANil \<rparr>"]
    Import_classification [where doRequest = "\<lambda>req. Inr \<lparr> StatusCode = 400, Body = ''{}'' \<rparr>"
      and r = "\<lparr> StatusCode = 400, Body = ''{}'' \<rparr>" and dec = emptyObjectDecoders
      and m = "NewClient 42 ''tok'' ''secret'' []" and events = "[]"
      and opts = "\<lparr> Strict = True, Compression = Gzip \<rparr>"
      and v = "\<lparr> Code_v = 0, ApiError_v = [], Status_v = ANil,
                 NumRecordsImported_v = 0, FailedImportRecords = [] \<rparr>"]
    Import_classification [where doRequest = "\<lambda>req. Inr \<lparr> StatusCode = 413, Body = ''{}'' \<rparr>"
      and r = "\<lparr> StatusCode = 413, Body = ''{}'' \<rparr>" and dec = emptyObjectDecoders
      and m = "NewClient 42 ''tok'' ''secret'' []" and events = "[]"
      and opts = "\<lparr> Strict = True, Compression = Gzip \<rparr>"
      and g = "\<lparr> Code_g = 0, ApiError_g = [], Status_g = ANil \<rparr>"]
    Import_classification [where doRequest = "\<lambda>req. Inr \<lparr> StatusCode = 503, Body = ''{}'' \<rparr>"
      and r = "\<lparr> StatusCode = 503, Body = ''{}'' \<rparr>" and dec = emptyObjectDecoders
      and m = "NewClient 42 ''tok'' ''secret'' []" and events = "[]"
      and opts = "\<lparr> Strict = True, Compression = Gzip \<rparr>"]
  by (simp add: emptyObjectDecoders_def Itoa_def digits.simps digit_def)

text \<open>
  The specification gives the errors of 401, 413 and 429 the kinds unauthorized,
  payload-too-large and rate-limited. On one and the same body the three statuses
  return one and the same error value, so the value carries no such kind.
\<close>

theorem Import_generic_error_has_no_kind:
  "Import (\<lambda>req. Inr \<lparr> StatusCode = 401, Body = ''{}'' \<rparr>) emptyObjectDecoders
      (NewClient 42 ''tok'' ''secret'' []) [] \<lparr> Strict = True, Compression = Gzip \<rparr>
     = Inl (GenericError \<lparr> Code_g = 0, ApiError_g = [], Status_g = ANil \<rparr>) \<and>
   Import (\<lambda>req. Inr \<lparr> StatusCode = 413, Body = ''{}'' \<rparr>) emptyObjectDecoders
      (NewClient 42 ''tok'' ''secret'' []) [] \<lparr> Strict = True, Compression = Gzip \<rparr>
     = Inl (GenericError \<lparr> Code_g = 0, ApiError_g = [], Status_g = ANil \<rparr>) \<and>
   Import (\<lambda>req. Inr \<lparr> StatusCode = 429, Body = ''{}'' \<rparr>) emptyObjectDecoders
      (NewClient 42 ''tok'' ''secret'' []) [] \<lparr> Strict = True, Compression = Gzip \<rparr>
     = Inl (GenericError \<lparr> Code_g = 0, ApiError_g = [], Status_g = ANil \<rparr>)"
  by (simp add: Import_def ImportResponse_def emptyObjectDecoders_def)

text \<open>
  C2. On Import with status 200, 400, 401, 413 or 429, and on ListLookupTables with
  status 200 or 401, a body that the decoder for that status refuses makes the operation
  return an error, not a panic: the decoder's error wrapped behind a decode prefix. That
  error is a DecodeError and is not an ApiError, so a caller can tell "the answer could
  not be understood" from "the API said it failed".
\<close>

theorem decode_failure_is_DecodeError:
  "(doRequest (ImportRequest m events opts) = Inr r \<and>
      ((StatusCode r = 200 \<and> DecodeImportSuccess dec (Body r) = Inl cause) \<or>
       (StatusCode r = 400 \<and> DecodeImportFailedValidationError dec (Body r) = Inl cause) \<or>
       ((StatusCode r = 401 \<or> StatusCode r = 413 \<or> StatusCode r = 429) \<and>
          DecodeImportGenericError dec (Body r) = Inl cause)) \<longrightarrow>
      (\<exists>prefix. Import doRequest dec m events opts = Inl (WrapError prefix cause) \<and>
         DecodeError (WrapError prefix cause) \<and> \<not> ApiError (WrapError prefix cause))) \<and>
   (doRequest (ListLookupTablesRequest m) = Inr r \<and>
      ((StatusCode r = 200 \<and> DecodeLookupTable dec (Body r) = Inl cause) \<or>
       (StatusCode r = 401 \<and> DecodeLookupTableError dec (Body r) = Inl cause)) \<longrightarrow>
      (\<exists>prefix. ListLookupTables doRequest dec m = Inl (WrapError prefix cause) \<and>
         DecodeError (WrapError prefix cause) \<and> \<not> ApiError (WrapError prefix cause)))"
  by (auto simp add: Import_def ImportResponse_def ListLookupTables_def
        ListLookupTablesResponse_def DecodeError_def ApiError_def)

theorem decode_failure_is_DecodeError_witness:
  "(\<exists>prefix.
      Import (\<lambda>req. Inr \<lparr> StatusCode = 200, Body = ''<html>'' \<rparr>) emptyObjectDecoders
        (NewClient 42 ''tok'' ''secret'' []) [] \<lparr> Strict = True, Compression = Gzip \<rparr>
        = Inl (WrapError prefix (LibError ''invalid character'')) \<and>
      DecodeError (WrapError prefix (LibError ''invalid character'')) \<and>
      \<not> ApiError (WrapError prefix (LibError ''invalid character''))) \<and>
   (\<exists>prefix.
      ListLookupTables (\<lambda>req. Inr \<lparr> StatusCode = 401, Body = ''<html>'' \<rparr>)
        emptyObjectDecoders (NewClient 42 ''tok'' ''secret'' [])
        = Inl (WrapError prefix (LibError ''invalid character'')) \<and>
      DecodeError (WrapError prefix (LibError ''invalid character'')) \<and>
      \<not> ApiError (WrapError prefix (LibError ''invalid character'')))"
  using
    decode_failure_is_DecodeError
      [where doRequest = "\<lambda>req. Inr \<lparr> StatusCode = 200, Body = ''<html>'' \<rparr>"
       and r = "\<lparr> StatusCode = 200, Body = ''<html>'' \<rparr>" and dec = emptyObjectDecoders
       and m = "NewClient 42 ''tok'' ''secret'' []" and events = "[]"
       and opts = "\<lparr> Strict = True, Compression = Gzip \<rparr>"
       and cause = "LibError ''invalid character''"]
    decode_failure_is_DecodeError
      [where doRequest = "\<lambda>req. Inr \<lparr> StatusCode = 401, Body = ''<html>'' \<rparr>"
       and r = "\<lparr> StatusCode = 401, Body = ''<html>'' \<rparr>" and dec = emptyObjectDecoders
       and m = "NewClient 42 ''tok'' ''secret'' []" and events = "[]"
       and opts = "\<lparr> Strict = True, Compression = Gzip \<rparr>"
       and cause = "LibError ''invalid character''"]
  by (simp add: emptyObjectDecoders_def)

section \<open>Event construction\<close>

text \<open>
  C3. For every name, distinct id and caller-supplied properties map (nil included), the
  event that NewEvent returns has a non-nil properties map in which the four reserved
  keys are present and hold the library's values: the client's token, the distinct id
  passed to the constructor, the library tag "go" and the library version "v0.0.1",
  whatever the caller had stored under those keys; the name is the one passed in.
\<close>

theorem NewEvent_reserved_properties:
  "Properties (NewEvent m name distinctID properties) \<noteq> None \<and>
   property (NewEvent m name distinctID properties) propertyToken = Some (AString (token m)) \<and>
   property (NewEvent m name distinctID properties) propertyDistinctID = Some (AString distinctID) \<and>
   property (NewEvent m name distinctID properties) propertyMpLib = Some (AString ''go'') \<and>
   property (NewEvent m name distinctID properties) propertyLibVersion = Some (AString ''v0.0.1'') \<and>
   Name (NewEvent m name distinctID properties) = name"
  by (simp add: NewEvent_def property_def property_names goLib_def version_def Let_def)

text \<open>
  C4 (as amended). An event built by NewEvent or NewIdentityEvent holds the client's
  token and the distinct id it was given (the empty string included) in its properties,
  and NewIdentityEvent never panics. NewEventFromJson adds nothing: the event it returns
  has exactly the name and the properties map found in the input, so the token and the
  distinct id are there only if the input had them.
\<close>

theorem constructed_token_and_distinct_id:
  "property (NewEvent m name distinctID properties) propertyToken = Some (AString (token m)) \<and>
   property (NewEvent m name distinctID properties) propertyDistinctID = Some (AString distinctID) \<and>
   (\<exists>i. NewIdentityEvent m distinctID properties identifiedId anonId = Inr i \<and>
        property (event i) propertyToken = Some (AString (token m)) \<and>
        property (event i) propertyDistinctID = Some (AString distinctID)) \<and>
   (\<forall>e. NewEventFromJson m json = Inr e \<longrightarrow>
        index json ''event'' = AString (Name e) \<and>
        index json ''properties'' = AMap (Properties e))"
proof (intro conjI allI impI)
  show "property (NewEvent m name distinctID properties) propertyToken = Some (AString (token m))"
    by (simp add: NewEvent_def property_def property_names Let_def)
  show "property (NewEvent m name distinctID properties) propertyDistinctID
          = Some (AString distinctID)"
    by (simp add: NewEvent_def property_def property_names Let_def)
  show "\<exists>i. NewIdentityEvent m distinctID properties identifiedId anonId = Inr i \<and>
          property (event i) propertyToken = Some (AString (token m)) \<and>
          property (event i) propertyDistinctID = Some (AString distinctID)"
    unfolding NewIdentityEvent_eq by (simp add: property_def property_names)
next
  fix e assume "NewEventFromJson m json = Inr e"
  then show "index json ''event'' = AString (Name e)"
    and "index json ''properties'' = AMap (Properties e)"
    by (auto simp add: NewEventFromJson_def split: any.splits)
qed

theorem constructed_token_and_distinct_id_witness:
  "\<exists>e. NewEventFromJson (NewClient 42 ''tok'' ''secret'' [])
          (Some [''event'' \<mapsto> AString ''signup'',
                 ''properties'' \<mapsto> AMap (Some [''token'' \<mapsto> AString ''other''])]) = Inr e \<and>
        AMap (Some [''token'' \<mapsto> AString ''other'']) = AMap (Properties e)"
proof -
  let ?json = "Some [''event'' \<mapsto> AString ''signup'',
                     ''properties'' \<mapsto> AMap (Some [''token'' \<mapsto> AString ''other''])]"
  have r: "NewEventFromJson (NewClient 42 ''tok'' ''secret'' []) ?json
             = Inr \<lparr> Name = ''signup'', Properties = Some [''token'' \<mapsto> AString ''other''] \<rparr>"
    by (simp add: NewEventFromJson_def index_def)
  have i: "index ?json ''properties'' = AMap (Some [''token'' \<mapsto> AString ''other''])"
    by (simp add: index_def)
  from constructed_token_and_distinct_id
         [where m = "NewClient 42 ''tok'' ''secret'' []" and json = ?json]
  have "index ?json ''properties''
          = AMap (Properties \<lparr> Name = ''signup'', Properties = Some [''token'' \<mapsto> AString ''other''] \<rparr>)"
    using r by blast
  with r i show ?thesis by simp
qed

text \<open>
  The specification's invariant covers NewEventFromJson too. An input whose properties
  map is empty gives an event with neither a token nor a distinct id.
\<close>

theorem NewEventFromJson_adds_no_token:
  "NewEventFromJson (NewClient 42 ''tok'' ''secret'' [])
     (Some [''event'' \<mapsto> AString ''signup'', ''properties'' \<mapsto> AMap (Some Map.empty)])
     = Inr \<lparr> Name = ''signup'', Properties = Some Map.empty \<rparr> \<and>
   property \<lparr> Name = ''signup'', Properties = Some Map.empty \<rparr> propertyToken = None \<and>
   property \<lparr> Name = ''signup'', Properties = Some Map.empty \<rparr> propertyDistinctID = None"
  by (simp add: NewEventFromJson_def index_def property_def)

text \<open>
  C5 (as amended). Round trip: for every event whose properties map is not nil, whose
  name and property keys are well-formed UTF-8, and whose property values each come back
  from a JSON encode and decode as they went in (the nil interface, booleans, well-formed
  strings, float64 numbers, and non-nil slices and maps of such values), serializing the
  event and decoding the bytes gives the untyped map of its name and properties, and
  NewEventFromJson applied to that map succeeds and returns the same event, name and
  properties.
\<close>

theorem NewEventFromJson_round_trip:
  assumes "Properties e = Some p"
    and "toValidUTF8 (Name e) = Name e"
    and "\<forall>k v. p k = Some v \<longrightarrow> toValidUTF8 k = k \<and> jsonValue 9998 v v"
  shows "jsonOfEvent e (Some [''event'' \<mapsto> AString (Name e), ''properties'' \<mapsto> AMap (Some p)]) \<and>
         (\<forall>j. jsonOfEvent e j \<longrightarrow> NewEventFromJson m j = Inr e)"
proof -
  have "jsonValue (Suc 9998) (AMap (Some p)) (AMap (Some p))"
    using assms(3) by (intro jsonValue_stable_map) blast+
  then have stable: "jsonValue 9999 (AMap (Properties e)) (AMap (Some p))"
    using assms(1) by simp
  have unique: "pv = AMap (Some p)" if "jsonValue 9999 (AMap (Properties e)) pv" for pv
    using that stable by (rule jsonValue_functional)
  show ?thesis
  proof (intro conjI allI impI)
    show "jsonOfEvent e (Some [''event'' \<mapsto> AString (Name e), ''properties'' \<mapsto> AMap (Some p)])"
      unfolding jsonOfEvent_def using stable assms(2) by auto
  next
    fix j assume "jsonOfEvent e j"
    then have "j = Some [''event'' \<mapsto> AString (Name e), ''properties'' \<mapsto> AMap (Some p)]"
      unfolding jsonOfEvent_def using unique assms(2) by auto
    then show "NewEventFromJson m j = Inr e"
      using assms(1) by (simp add: NewEventFromJson_def index_def)
  qed
qed

theorem NewEventFromJson_round_trip_witness:
  "jsonOfEvent \<lparr> Name = ''signup'', Properties = Some [''plan'' \<mapsto> AString ''pro''] \<rparr>
     (Some [''event'' \<mapsto> AString ''signup'',
            ''properties'' \<mapsto> AMap (Some [''plan'' \<mapsto> AString ''pro''])]) \<and>
   NewEventFromJson (NewClient 42 ''tok'' ''secret'' [])
     (Some [''event'' \<mapsto> AString ''signup'',
            ''properties'' \<mapsto> AMap (Some [''plan'' \<mapsto> AString ''pro''])])
   = Inr \<lparr> Name = ''signup'', Properties = Some [''plan'' \<mapsto> AString ''pro''] \<rparr>"
proof -
  let ?e = "\<lparr> Name = ''signup'', Properties = Some [''plan'' \<mapsto> AString ''pro''] \<rparr>"
  have name: "toValidUTF8 (Name ?e) = Name ?e"
    by (simp add: toValidUTF8_ascii)
  have "jsonValue 9998 (AString ''pro'') (AString (toValidUTF8 ''pro''))"
    by (rule jsonValue.String)
  then have "\<forall>k v. [''plan'' \<mapsto> AString ''pro''] k = Some v \<longrightarrow>
               toValidUTF8 k = k \<and> jsonValue 9998 v v"
    by (auto simp add: toValidUTF8_ascii split: if_splits)
  with NewEventFromJson_round_trip
         [where e = ?e and p = "[''plan'' \<mapsto> AString ''pro'']"
          and m = "NewClient 42 ''tok'' ''secret'' []", OF _ name]
  show ?thesis by simp
qed

text \<open>
  The specification states the round trip for every event. It fails for an event whose
  properties map is nil (the properties are written as null, and NewEventFromJson refuses
  the result), for one that holds an int64 such as AddTime stores (it comes back as a
  float64), for a name that is not well-formed UTF-8 and for such a key (the offending
  byte comes back as U+FFFD).
\<close>

theorem round_trip_fails:
  "jsonOfEvent \<lparr> Name = ''signup'', Properties = None \<rparr>
     (Some [''event'' \<mapsto> AString ''signup'', ''properties'' \<mapsto> ANil]) \<and>
   NewEventFromJson (NewClient 42 ''tok'' ''secret'' [])
     (Some [''event'' \<mapsto> AString ''signup'', ''properties'' \<mapsto> ANil])
     = Inl (ErrorString ''event properties is not a map or is missing'') \<and>
   jsonOfEvent \<lparr> Name = ''signup'', Properties = Some [''time'' \<mapsto> AInt64 5] \<rparr>
     (Some [''event'' \<mapsto> AString ''signup'',
            ''properties'' \<mapsto> AMap (Some [''time'' \<mapsto> AFloat64 5])]) \<and>
   NewEventFromJson (NewClient 42 ''tok'' ''secret'' [])
     (Some [''event'' \<mapsto> AString ''signup'',
            ''properties'' \<mapsto> AMap (Some [''time'' \<mapsto> AFloat64 5])])
     = Inr \<lparr> Name = ''signup'', Properties = Some [''time'' \<mapsto> AFloat64 5] \<rparr> \<and>
   jsonOfEvent \<lparr> Name = [CHR 0xFF], Properties = Some Map.empty \<rparr>
     (Some [''event'' \<mapsto> AString [CHR 0xEF, CHR 0xBF, CHR 0xBD],
            ''properties'' \<mapsto> AMap (Some Map.empty)]) \<and>
   NewEventFromJson (NewClient 42 ''tok'' ''secret'' [])
     (Some [''event'' \<mapsto> AString [CHR 0xEF, CHR 0xBF, CHR 0xBD],
            ''properties'' \<mapsto> AMap (Some Map.empty)])
     = Inr \<lparr> Name = [CHR 0xEF, CHR 0xBF, CHR 0xBD], Properties = Some Map.empty \<rparr> \<and>
   jsonOfEvent \<lparr> Name = ''signup'', Properties = Some [[CHR 0xFF] \<mapsto> ABool True] \<rparr>
     (Some [''event'' \<mapsto> AString ''signup'',
            ''properties'' \<mapsto> AMap (Some [[CHR 0xEF, CHR 0xBF, CHR 0xBD] \<mapsto> ABool True])]) \<and>
   NewEventFromJson (NewClient 42 ''tok'' ''secret'' [])
     (Some [''event'' \<mapsto> AString ''signup'',
            ''properties'' \<mapsto> AMap (Some [[CHR 0xEF, CHR 0xBF, CHR 0xBD] \<mapsto> ABool True])])
     = Inr \<lparr> Name = ''signup'',
             Properties = Some [[CHR 0xEF, CHR 0xBF, CHR 0xBD] \<mapsto> ABool True] \<rparr>"
proof -
  have signup: "toValidUTF8 ''signup'' = ''signup''" and time: "toValidUTF8 ''time'' = ''time''"
    by (simp_all add: toValidUTF8_ascii)
  have nil: "jsonValue 9999 (AMap None) ANil"
    by (rule jsonValue.NilMap)
  have "jsonValue 9998 (AInt64 5) (AFloat64 (of_int (float64OfInt (sint (5 :: 64 word)))))"
    by (rule jsonValue.Int64)
  then have "jsonValue (9999 - 1) (AInt64 5) (AFloat64 5)"
    by (simp add: float64OfInt_def)
  from jsonValue_singleton_map [OF _ this, where k = "''time''"]
  have int64: "jsonValue 9999 (AMap (Some [''time'' \<mapsto> AInt64 5]))
                 (AMap (Some [''time'' \<mapsto> AFloat64 5]))"
    by (simp add: time)
  have empty: "jsonValue 9999 (AMap (Some Map.empty)) (AMap (Some Map.empty))"
    by (simp add: jsonValue_empty_map)
  have "jsonValue (9999 - 1) (ABool True) (ABool True)"
    by (rule jsonValue.Bool)
  from jsonValue_singleton_map [OF _ this, where k = "[CHR 0xFF]"]
  have key: "jsonValue 9999 (AMap (Some [[CHR 0xFF] \<mapsto> ABool True]))
               (AMap (Some [[CHR 0xEF, CHR 0xBF, CHR 0xBD] \<mapsto> ABool True]))"
    by (simp add: toValidUTF8_FF)
  have "jsonOfEvent \<lparr> Name = ''signup'', Properties = None \<rparr>
          (Some [''event'' \<mapsto> AString ''signup'', ''properties'' \<mapsto> ANil])"
    using jsonOfEventI [of "\<lparr> Name = ''signup'', Properties = None \<rparr>" ANil] nil
    by (simp add: signup)
  moreover
  have "jsonOfEvent \<lparr> Name = ''signup'', Properties = Some [''time'' \<mapsto> AInt64 5] \<rparr>
          (Some [''event'' \<mapsto> AString ''signup'',
                 ''properties'' \<mapsto> AMap (Some [''time'' \<mapsto> AFloat64 5])])"
    using jsonOfEventI [of "\<lparr> Name = ''signup'', Properties = Some [''time'' \<mapsto> AInt64 5] \<rparr>"
                           "AMap (Some [''time'' \<mapsto> AFloat64 5])"] int64
    by (simp add: signup)
  moreover
  have "jsonOfEvent \<lparr> Name = [CHR 0xFF], Properties = Some Map.empty \<rparr>
          (Some [''event'' \<mapsto> AString [CHR 0xEF, CHR 0xBF, CHR 0xBD],
                 ''properties'' \<mapsto> AMap (Some Map.empty)])"
    using jsonOfEventI [of "\<lparr> Name = [CHR 0xFF], Properties = Some Map.empty \<rparr>"
                           "AMap (Some Map.empty)"] empty
    by (simp add: toValidUTF8_FF)
  moreover
  have "jsonOfEvent \<lparr> Name = ''signup'', Properties = Some [[CHR 0xFF] \<mapsto> ABool True] \<rparr>
          (Some [''event'' \<mapsto> AString ''signup'',
                 ''properties'' \<mapsto> AMap (Some [[CHR 0xEF, CHR 0xBF, CHR 0xBD] \<mapsto> ABool True])])"
    using jsonOfEventI
            [of "\<lparr> Name = ''signup'', Properties = Some [[CHR 0xFF] \<mapsto> ABool True] \<rparr>"
                "AMap (Some [[CHR 0xEF, CHR 0xBF, CHR 0xBD] \<mapsto> ABool True])"] key
    by (simp add: signup)
  ultimately show ?thesis
    by (simp add: NewEventFromJson_def index_def)
qed

text \<open>
  C6. For every raw untyped map (nil included), NewEventFromJson fails, and then with
  a MalformedEvent error, exactly when the value under "event" is not a string or the
  value under "properties" is not a map; otherwise it returns the event whose name and
  properties are those two values.
\<close>

theorem NewEventFromJson_malformed_iff:
  "((\<exists>err. NewEventFromJson m json = Inl err \<and> MalformedEvent err) \<longleftrightarrow>
      (\<not> isString (index json ''event'') \<or> \<not> isMap (index json ''properties''))) \<and>
   ((\<exists>e. NewEventFromJson m json = Inr e) \<longleftrightarrow>
      (isString (index json ''event'') \<and> isMap (index json ''properties''))) \<and>
   (\<forall>err. NewEventFromJson m json = Inl err \<longrightarrow> MalformedEvent err) \<and>
   (\<forall>name props. index json ''event'' = AString name \<and> index json ''properties'' = AMap props \<longrightarrow>
      NewEventFromJson m json = Inr \<lparr> Name = name, Properties = props \<rparr>)"
  by (auto simp add: NewEventFromJson_def MalformedEvent_def isString_def isMap_def
           split: any.splits)

theorem NewEventFromJson_malformed_iff_witness:
  "NewEventFromJson (NewClient 42 ''tok'' ''secret'' [])
     (Some [''event'' \<mapsto> AString ''signup'',
            ''properties'' \<mapsto> AMap (Some [''plan'' \<mapsto> AString ''pro''])])
     = Inr \<lparr> Name = ''signup'', Properties = Some [''plan'' \<mapsto> AString ''pro''] \<rparr> \<and>
   (\<exists>err. NewEventFromJson (NewClient 42 ''tok'' ''secret'' [])
       (Some [''event'' \<mapsto> ABool True, ''properties'' \<mapsto> AMap (Some Map.empty)]) = Inl err
      \<and> MalformedEvent err)"
  using NewEventFromJson_malformed_iff
          [where m = "NewClient 42 ''tok'' ''secret'' []"
           and json = "Some [''event'' \<mapsto> AString ''signup'',
                             ''properties'' \<mapsto> AMap (Some [''plan'' \<mapsto> AString ''pro''])]"]
        NewEventFromJson_malformed_iff
          [where m = "NewClient 42 ''tok'' ''secret'' []"
           and json = "Some [''event'' \<mapsto> ABool True, ''properties'' \<mapsto> AMap (Some Map.empty)]"]
  by (simp add: index_def isString_def isMap_def)

section \<open>Enrichment helpers\<close>

text \<open>
  C7 (as amended). For every time t whose milliseconds since the epoch fit a signed
  64-bit integer, and every event e: AddTime returns whenever the properties map of e is
  not nil, and whenever it returns, the "time" property of the event is the int64 equal
  to the instant of t in nanoseconds since the epoch divided by a million, rounded down.
\<close>

theorem AddTime_epoch_millis:
  assumes "- (2 ^ 63) \<le> epochMillis t" and "epochMillis t < 2 ^ 63"
  shows "(Properties e \<noteq> None \<longrightarrow> (\<exists>e'. AddTime t e = Inr e')) \<and>
         (\<forall>e'. AddTime t e = Inr e' \<longrightarrow>
            (\<exists>w. property e' propertyTime = Some (AInt64 w) \<and> sint w = epochMillis t))"
proof (intro conjI allI impI)
  assume "Properties e \<noteq> None"
  then show "\<exists>e'. AddTime t e = Inr e'"
    by (auto simp add: AddTime_def setProperty_Some)
next
  fix e' assume "AddTime t e = Inr e'"
  then have "property e' propertyTime = Some (AInt64 (UnixMilli t))"
    unfolding AddTime_def by (blast dest: setProperty_frame)
  with sint_UnixMilli [OF assms]
  show "\<exists>w. property e' propertyTime = Some (AInt64 w) \<and> sint w = epochMillis t"
    by blast
qed

theorem AddTime_epoch_millis_witness:
  "\<exists>e' w. AddTime \<lparr> unixSec = 1700000000, nsec = 123456789 \<rparr>
             (NewEvent (NewClient 42 ''tok'' ''secret'' []) ''signup'' ''user-1'' None) = Inr e' \<and>
          property e' propertyTime = Some (AInt64 w) \<and> sint w = 1700000000123"
proof -
  let ?t = "\<lparr> unixSec = 1700000000, nsec = 123456789 \<rparr>"
  let ?e = "NewEvent (NewClient 42 ''tok'' ''secret'' []) ''signup'' ''user-1'' None"
  have v: "epochMillis ?t = 1700000000123"
    by (simp add: epochMillis_def epochNanos_def)
  have lo: "- (2 ^ 63) \<le> epochMillis ?t" and hi: "epochMillis ?t < 2 ^ 63"
    by (simp_all add: v)
  note th = AddTime_epoch_millis [OF lo hi, where e = ?e]
  have "Properties ?e \<noteq> None"
    by (simp add: NewEvent_def Let_def)
  with th obtain e' where e': "AddTime ?t ?e = Inr e'" by blast
  with th obtain w where "property e' propertyTime = Some (AInt64 w)" "sint w = epochMillis ?t"
    by blast
  with e' v show ?thesis by auto
qed

text \<open>
  The specification states this for every time. At 2^62 seconds after the epoch (Go's
  \<open>time.Unix(1<<62, 0)\<close>) the product with 1000 wraps around in int64: the "time"
  property is 0, while the instant is 4611686018427387904000 milliseconds after the
  epoch.
\<close>

theorem AddTime_wraps_around:
  "AddTime \<lparr> unixSec = 2 ^ 62, nsec = 0 \<rparr> \<lparr> Name = ''signup'', Properties = Some Map.empty \<rparr>
     = Inr \<lparr> Name = ''signup'', Properties = Some [''time'' \<mapsto> AInt64 0] \<rparr> \<and>
   epochMillis \<lparr> unixSec = 2 ^ 62, nsec = 0 \<rparr> = 4611686018427387904000"
  using UnixMilli_wraps
  by (simp add: AddTime_def setProperty_def propertyTime_def epochMillis_def epochNanos_def)

text \<open>
  C8. Each of AddTime, AddInsertID and AddIP writes one key and overwrites it when
  called again. If a first call returns, a second call on its result gives what a single
  call with the second argument gives on the original event; after a call the helper's
  key holds the value just written, the set of keys is the old one with that key added,
  and the name and every other key are unchanged. The calls do return when the properties
  map is not nil (and, for AddIP, the pointer is not nil).
\<close>

theorem enrichment_overwrites:
  "(AddTime t1 e = Inr e1 \<longrightarrow>
      AddTime t2 e1 = AddTime t2 e \<and> Name e1 = Name e \<and>
      property e1 propertyTime = Some (AInt64 (UnixMilli t1)) \<and>
      keys e1 = insert propertyTime (keys e) \<and>
      (\<forall>k. k \<noteq> propertyTime \<longrightarrow> property e1 k = property e k)) \<and>
   (AddInsertID id1 e = Inr e2 \<longrightarrow>
      AddInsertID id2 e2 = AddInsertID id2 e \<and> Name e2 = Name e \<and>
      property e2 propertyInsertID = Some (AString id1) \<and>
      keys e2 = insert propertyInsertID (keys e) \<and>
      (\<forall>k. k \<noteq> propertyInsertID \<longrightarrow> property e2 k = property e k)) \<and>
   (AddIP String (Some ip1) e = Inr e3 \<longrightarrow>
      AddIP String (Some ip2) e3 = AddIP String (Some ip2) e \<and> Name e3 = Name e \<and>
      property e3 propertyIP = Some (AString (String ip1)) \<and>
      keys e3 = insert propertyIP (keys e) \<and>
      (\<forall>k. k \<noteq> propertyIP \<longrightarrow> property e3 k = property e k)) \<and>
   (Properties e \<noteq> None \<longrightarrow>
      (\<exists>e'. AddTime t1 e = Inr e') \<and> (\<exists>e'. AddInsertID id1 e = Inr e') \<and>
      (\<exists>e'. AddIP String (Some ip1) e = Inr e'))"
proof (intro conjI impI)
  assume "AddTime t1 e = Inr e1"
  then have s: "setProperty propertyTime (AInt64 (UnixMilli t1)) e = Inr e1"
    by (simp add: AddTime_def)
  show "AddTime t2 e1 = AddTime t2 e"
    unfolding AddTime_def by (rule setProperty_twice [OF s])
  from setProperty_frame [OF s]
  show "Name e1 = Name e" "property e1 propertyTime = Some (AInt64 (UnixMilli t1))"
    "keys e1 = insert propertyTime (keys e)"
    "\<forall>k. k \<noteq> propertyTime \<longrightarrow> property e1 k = property e k"
    by simp_all
next
  assume "AddInsertID id1 e = Inr e2"
  then have s: "setProperty propertyInsertID (AString id1) e = Inr e2"
    by (simp add: AddInsertID_def)
  show "AddInsertID id2 e2 = AddInsertID id2 e"
    unfolding AddInsertID_def by (rule setProperty_twice [OF s])
  from setProperty_frame [OF s]
  show "Name e2 = Name e" "property e2 propertyInsertID = Some (AString id1)"
    "keys e2 = insert propertyInsertID (keys e)"
    "\<forall>k. k \<noteq> propertyInsertID \<longrightarrow> property e2 k = property e k"
    by simp_all
next
  assume "AddIP String (Some ip1) e = Inr e3"
  then have s: "setProperty propertyIP (AString (String ip1)) e = Inr e3"
    by (simp add: AddIP_def)
  show "AddIP String (Some ip2) e3 = AddIP String (Some ip2) e"
    unfolding AddIP_def by (simp add: setProperty_twice [OF s])
  from setProperty_frame [OF s]
  show "Name e3 = Name e" "property e3 propertyIP = Some (AString (String ip1))"
    "keys e3 = insert propertyIP (keys e)"
    "\<forall>k. k \<noteq> propertyIP \<longrightarrow> property e3 k = property e k"
    by simp_all
next
  assume "Properties e \<noteq> None"
  then obtain p where "Properties e = Some p" by blast
  then show "\<exists>e'. AddTime t1 e = Inr e'" "\<exists>e'. AddInsertID id1 e = Inr e'"
    "\<exists>e'. AddIP String (Some ip1) e = Inr e'"
    by (simp_all add: AddTime_def AddInsertID_def AddIP_def setProperty_Some)
qed

theorem enrichment_overwrites_witness:
  "\<exists>e2. AddInsertID ''first''
            (NewEvent (NewClient 42 ''tok'' ''secret'' []) ''signup'' ''user-1'' None) = Inr e2 \<and>
        AddInsertID ''second'' e2
          = AddInsertID ''second''
              (NewEvent (NewClient 42 ''tok'' ''secret'' []) ''signup'' ''user-1'' None) \<and>
        property e2 propertyInsertID = Some (AString ''first'') \<and>
        keys e2 = {''$insert_id'', ''token'', ''distinct_id'', ''mp_lib'', ''$lib_version''}"
proof -
  let ?e = "NewEvent (NewClient 42 ''tok'' ''secret'' []) ''signup'' ''user-1'' None"
  have n: "Properties ?e \<noteq> None"
    by (simp add: NewEvent_def Let_def)
  have k: "keys ?e = {''token'', ''distinct_id'', ''mp_lib'', ''$lib_version''}"
    by (auto simp add: NewEvent_def keys_def property_names Let_def)
  note returns = enrichment_overwrites [where e = ?e and ?id1.0 = "''first''",
      THEN conjunct2, THEN conjunct2, THEN conjunct2, THEN mp, OF n]
  from returns [THEN conjunct2, THEN conjunct1]
  obtain e2 where e2: "AddInsertID ''first'' ?e = Inr e2" ..
  note again = enrichment_overwrites
      [where e = ?e and ?id1.0 = "''first''" and ?id2.0 = "''second''" and ?e2.0 = e2,
       THEN conjunct2, THEN conjunct1, THEN mp, OF e2]
  from again
  have "AddInsertID ''second'' e2 = AddInsertID ''second'' ?e"
    and "property e2 propertyInsertID = Some (AString ''first'')"
    and "keys e2 = {''$insert_id'', ''token'', ''distinct_id'', ''mp_lib'', ''$lib_version''}"
    by (simp_all only: k propertyInsertID_def)
  with e2 show ?thesis by (intro exI [of _ e2] conjI)
qed

section \<open>The query of Import\<close>

text \<open>
  C9. For every client, list of events and ImportOptions value, and whatever the
  transport and the decoders do, Import makes one request, a POST to the api endpoint
  followed by /import, and what Import returns is decided by the answer to that request
  alone. The query values attached to the request are exactly these: strict, one value,
  "1" when Strict is true and "0" when it is false; project_id, one value, the project
  id of the client as a decimal numeral (digits only, no leading zero, a minus sign when
  negative, and the project id as its value); verbose, one value, "1"; and no value
  under any other key.
\<close>

theorem Import_query_parameters:
  "Import doRequest dec m events opts =
     (case doRequest
        \<lparr> httpMethod = ''POST'',
          url = apiEndpoint m @ ''/import'',
          payload = Some events,
          compression = Compression opts,
          options =
            [addQueryParams
               (\<lambda>key. if key = ''strict'' then [if Strict opts then ''1'' else ''0'']
                      else if key = ''project_id'' then [Itoa (projectID m)]
                      else if key = ''verbose'' then [''1'']
                      else []),
             acceptJson, useServiceAccount m] \<rparr>
      of Inl err \<Rightarrow> Inl (WrapError ''failed to import:'' err)
       | Inr httpResponse \<Rightarrow> ImportResponse dec httpResponse) \<and>
   canonicalDecimal (Itoa (projectID m)) \<and>
   decimalValue (Itoa (projectID m)) = projectID m"
proof -
  have "ImportValues m opts =
     (\<lambda>key. if key = ''strict'' then [if Strict opts then ''1'' else ''0'']
            else if key = ''project_id'' then [Itoa (projectID m)]
            else if key = ''verbose'' then [''1'']
            else [])"
    by (auto simp add: ImportValues_def Add_apply emptyValues_def Let_def fun_eq_iff)
  then show ?thesis
    by (simp add: Import_def ImportRequest_def importURL_def canonicalDecimal_Itoa
          decimalValue_Itoa)
qed

text \<open>
  The same on one input, with a transport that answers with the query it was given:
  project 42, not strict.
\<close>

lemma Import_query_example:
  "Import (\<lambda>req. Inl (LibError (concat (map (\<lambda>opt. case opt of
       addQueryParams vs \<Rightarrow> ''strict='' @ concat (vs ''strict'') @ ''&project_id=''
          @ concat (vs ''project_id'') @ ''&verbose='' @ concat (vs ''verbose'')
     | _ \<Rightarrow> []) (options req)))))
     emptyObjectDecoders (NewClient 42 ''tok'' ''secret'' []) []
     \<lparr> Strict = False, Compression = Gzip \<rparr>
   = Inl (WrapError ''failed to import:'' (LibError ''strict=0&project_id=42&verbose=1''))"
  by (simp add: Import_def ImportRequest_def ImportValues_def Add_apply emptyValues_def
        Let_def NewClient_def Itoa_def digits.simps digit_def)

section \<open>NewEvent on a nil map\<close>

text \<open>
  C10. With a nil properties map NewEvent does not fault: it returns an event whose
  properties map is non-nil and holds exactly the four reserved keys token, distinct_id,
  mp_lib and $lib_version, with the library's values.
\<close>

theorem NewEvent_nil_properties:
  "NewEvent m name distinctID None =
     \<lparr> Name = name,
       Properties = Some [''token'' \<mapsto> AString (token m), ''distinct_id'' \<mapsto> AString distinctID,
                          ''mp_lib'' \<mapsto> AString ''go'', ''$lib_version'' \<mapsto> AString ''v0.0.1''] \<rparr> \<and>
   keys (NewEvent m name distinctID None) = {''token'', ''distinct_id'', ''mp_lib'', ''$lib_version''}"
  by (auto simp add: NewEvent_def keys_def property_names goLib_def version_def Let_def)

end
